theory Spec2Isabelle
  imports Complex_Main
begin

section \<open>Python text primitives used by the invoice form\<close>

text \<open>
  Text is a list of characters; a character stands for a code point below 256, so the
  character classes of Python are given on that range and text beyond it (Persian
  letters and digits) is not covered. \<open>py_isspace\<close> is \<^verbatim>\<open>str.isspace\<close>, \<open>strip\<close> is
  \<^verbatim>\<open>str.strip()\<close> and \<open>replace_comma\<close> is \<^verbatim>\<open>.replace(",", "")\<close>.
\<close>

definition code :: "char \<Rightarrow> nat" where
  "code c = of_char c"

definition py_isspace :: "char \<Rightarrow> bool" where
  "py_isspace c = (code c \<in> {9, 10, 11, 12, 13, 28, 29, 30, 31, 32, 133, 160})"

definition strip :: "string \<Rightarrow> string" where
  "strip s = rev (dropWhile py_isspace (rev (dropWhile py_isspace s)))"

definition replace_comma :: "string \<Rightarrow> string" where
  "replace_comma s = filter (\<lambda>c. c \<noteq> CHR '','') s"

definition is_digit :: "char \<Rightarrow> bool" where
  "is_digit c = (48 \<le> code c \<and> code c \<le> 57)"

section \<open>Python floats\<close>

text \<open>
  A Python \<^verbatim>\<open>float\<close> is an IEEE 754 binary64 value: a sign and a magnitude, the two
  infinities, or NaN. The magnitude of a finite value is kept as the rational it denotes;
  \<open>Fin True 0\<close> is the negative zero.
\<close>

datatype pyfloat = Fin bool rat | Inf bool | NaN

text \<open>The number of binary digits of a positive integer.\<close>

function bits :: "int \<Rightarrow> nat" where
  "bits n = (if n \<le> 0 then 0 else Suc (bits (n div 2)))"
  by pat_completeness auto
termination
  by (relation "measure nat") auto

declare bits.simps [simp del]

definition pow2 :: "int \<Rightarrow> rat" where
  "pow2 e = (if 0 \<le> e then 2 ^ nat e else 1 / 2 ^ nat (- e))"

text \<open>\<open>floor_log2 a\<close> is the integer \<open>k\<close> with \<open>2^k \<le> a < 2^(k+1)\<close>, for a positive \<open>a\<close>.\<close>

definition floor_log2 :: "rat \<Rightarrow> int" where
  "floor_log2 a =
     (let (n, d) = quotient_of a;
          k = int (bits n) - int (bits d)
      in if pow2 k \<le> a then k else k - 1)"

definition round_half_even :: "rat \<Rightarrow> int" where
  "round_half_even q =
     (let f = \<lfloor>q\<rfloor>; r = q - of_int f
      in if r < 1 / 2 then f
         else if 1 / 2 < r then f + 1
         else if even f then f else f + 1)"

text \<open>
  Rounding of a positive rational to the nearest value with a 53-bit significand and
  an exponent of at least -1074 (ties to even), before the overflow test.
\<close>

definition round_mag :: "rat \<Rightarrow> rat" where
  "round_mag a =
     (let e = max (floor_log2 a - 52) (- 1074)
      in of_int (round_half_even (a / pow2 e)) * pow2 e)"

text \<open>The least magnitude that no longer fits: rounding that reaches it gives infinity.\<close>

definition overflow_threshold :: rat where
  "overflow_threshold = 2 ^ 1024"

lemma overflow_threshold_numeral [code]:
  "overflow_threshold = 179769313486231590772930519078902473361797697894230657273430081157732675805500963132708477322407536021120113879871393357658789768814416622492847430639474124377767893424865485276302219601246094119453082952085005768838150682342462881473913110540827237163350510684586298239947245938479716304835356329624224137216"
  by (simp add: overflow_threshold_def)

definition fround :: "bool \<Rightarrow> rat \<Rightarrow> pyfloat" where
  "fround neg a =
     (if a = 0 then Fin neg 0
      else let v = round_mag a
           in if overflow_threshold \<le> v then Inf neg else Fin neg v)"

definition fval :: "bool \<Rightarrow> rat \<Rightarrow> rat" where
  "fval neg a = (if neg then - a else a)"

text \<open>\<^verbatim>\<open>x * y\<close> on floats.\<close>

fun fmul :: "pyfloat \<Rightarrow> pyfloat \<Rightarrow> pyfloat" where
  "fmul NaN _ = NaN"
| "fmul _ NaN = NaN"
| "fmul (Inf s) (Inf t) = Inf (s \<noteq> t)"
| "fmul (Inf s) (Fin t b) = (if b = 0 then NaN else Inf (s \<noteq> t))"
| "fmul (Fin s a) (Inf t) = (if a = 0 then NaN else Inf (s \<noteq> t))"
| "fmul (Fin s a) (Fin t b) = fround (s \<noteq> t) (a * b)"

text \<open>\<^verbatim>\<open>x + y\<close> on floats.\<close>

fun fadd :: "pyfloat \<Rightarrow> pyfloat \<Rightarrow> pyfloat" where
  "fadd NaN _ = NaN"
| "fadd _ NaN = NaN"
| "fadd (Inf s) (Inf t) = (if s = t then Inf s else NaN)"
| "fadd (Inf s) (Fin t b) = Inf s"
| "fadd (Fin s a) (Inf t) = Inf t"
| "fadd (Fin s a) (Fin t b) =
     (let r = fval s a + fval t b
      in if r = 0 then Fin (s \<and> t) 0 else fround (r < 0) \<bar>r\<bar>)"

text \<open>\<^verbatim>\<open>x <= 0\<close> and \<^verbatim>\<open>x > 0\<close>; both are false on NaN.\<close>

fun fle0 :: "pyfloat \<Rightarrow> bool" where
  "fle0 (Fin s a) = (fval s a \<le> 0)"
| "fle0 (Inf s) = s"
| "fle0 NaN = False"


subsection \<open>The constructor \<^verbatim>\<open>float(text)\<close>\<close>

text \<open>
  \<^verbatim>\<open>float\<close> accepts, between optional white space, an optional sign followed by
  \<^verbatim>\<open>inf\<close>, \<^verbatim>\<open>infinity\<close> or \<^verbatim>\<open>nan\<close> in any letter case, or by a decimal numeral with an
  optional fraction and an optional exponent. Single underscores may separate digits.
  Anything else raises \<^verbatim>\<open>ValueError\<close>, which is the value \<open>None\<close> here. The white space
  that \<^verbatim>\<open>float\<close> itself removes is narrower than that of \<^verbatim>\<open>str.strip\<close>.
\<close>

definition float_space :: "char \<Rightarrow> bool" where
  "float_space c = (code c \<in> {9, 10, 11, 12, 13, 32, 133, 160})"

fun underscores_ok :: "char option \<Rightarrow> string \<Rightarrow> bool" where
  "underscores_ok prev [] = (prev \<noteq> Some (CHR ''_''))"
| "underscores_ok prev (c # cs) =
     ((if c = CHR ''_'' then (case prev of None \<Rightarrow> False | Some p \<Rightarrow> is_digit p)
       else (prev = Some (CHR ''_'') \<longrightarrow> is_digit c))
      \<and> underscores_ok (Some c) cs)"

definition ci_eq :: "string \<Rightarrow> string \<Rightarrow> bool" where
  "ci_eq s l = (length s = length l \<and>
     list_all2 (\<lambda>c d. c = d \<or> code c + 32 = code d) s l)"

definition digits_val :: "string \<Rightarrow> int" where
  "digits_val ds = foldl (\<lambda>n c. 10 * n + (int (code c) - 48)) 0 ds"

definition split_sign :: "string \<Rightarrow> bool \<times> string" where
  "split_sign s =
     (case s of
        [] \<Rightarrow> (False, [])
      | c # r \<Rightarrow> if c = CHR ''-'' then (True, r)
                 else if c = CHR ''+'' then (False, r) else (False, s))"

definition pow10 :: "int \<Rightarrow> rat" where
  "pow10 e = (if 0 \<le> e then 10 ^ nat e else 1 / 10 ^ nat (- e))"

definition parse_exponent :: "string \<Rightarrow> int option" where
  "parse_exponent s =
     (case s of
        [] \<Rightarrow> Some 0
      | c # r \<Rightarrow>
          if c = CHR ''e'' \<or> c = CHR ''E'' then
            (let (eneg, ds) = split_sign r
             in if ds \<noteq> [] \<and> list_all is_digit ds
                then Some (if eneg then - digits_val ds else digits_val ds)
                else None)
          else None)"

definition parse_decimal :: "string \<Rightarrow> rat option" where
  "parse_decimal s =
     (let ip = takeWhile is_digit s; r1 = dropWhile is_digit s;
          (fp, r2) = (case r1 of
                        [] \<Rightarrow> ([], [])
                      | c # r \<Rightarrow> if c = CHR ''.''
                                 then (takeWhile is_digit r, dropWhile is_digit r)
                                 else ([], r1))
      in if ip = [] \<and> fp = [] then None
         else (case parse_exponent r2 of
                 None \<Rightarrow> None
               | Some e \<Rightarrow>
                   Some (of_int (digits_val (ip @ fp)) * pow10 (e - int (length fp)))))"

definition py_float :: "string \<Rightarrow> pyfloat option" where
  "py_float s =
     (if \<not> underscores_ok None s then None
      else
        let t = filter (\<lambda>c. c \<noteq> CHR ''_'') s;
            u = rev (dropWhile float_space (rev (dropWhile float_space t)));
            (neg, body) = split_sign u
        in if ci_eq body ''inf'' \<or> ci_eq body ''infinity'' then Some (Inf neg)
           else if ci_eq body ''nan'' then Some NaN
           else (case parse_decimal body of
                   None \<Rightarrow> None
                 | Some r \<Rightarrow> Some (fround neg r)))"

text \<open>
  Conversion of an \<^verbatim>\<open>int\<close> operand and \<^verbatim>\<open>x / y\<close> on floats. Python raises
  \<^verbatim>\<open>ZeroDivisionError\<close> on a zero divisor. The conversion is the correctly rounded one;
  the integers converted in this program are list lengths and sums of the start value
  \<^verbatim>\<open>0\<close>, far below the range where Python would raise \<^verbatim>\<open>OverflowError\<close> instead.
\<close>

datatype pyexc = UnpicklingError | EOFError | AttributeError | ValueError | ImportError
  | OSError | IndexError | ZeroDivisionError

definition float_of_int :: "int \<Rightarrow> pyfloat" where
  "float_of_int n = fround (n < 0) \<bar>of_int n\<bar>"

fun fdiv :: "pyfloat \<Rightarrow> pyfloat \<Rightarrow> pyexc + pyfloat" where
  "fdiv x (Fin t b) =
     (if b = 0 then Inl ZeroDivisionError
      else (case x of
              NaN \<Rightarrow> Inr NaN
            | Inf s \<Rightarrow> Inr (Inf (s \<noteq> t))
            | Fin s a \<Rightarrow> Inr (fround (s \<noteq> t) (a / b))))"
| "fdiv x (Inf t) =
     (case x of
        NaN \<Rightarrow> Inr NaN
      | Inf s \<Rightarrow> Inr NaN
      | Fin s a \<Rightarrow> Inr (Fin (s \<noteq> t) 0))"
| "fdiv x NaN = Inr NaN"

subsection \<open>Numbers produced by \<^verbatim>\<open>sum\<close>\<close>

text \<open>
  \<^verbatim>\<open>sum(xs)\<close> starts from the \<^verbatim>\<open>int\<close> 0, so it is the \<^verbatim>\<open>int\<close> 0 on an empty sequence
  and a float as soon as a float was added. How the floats are added depends on the
  interpreter, and the program fixes none: up to CPython 3.11 \<^verbatim>\<open>sum\<close> adds from the
  left; from CPython 3.12 on it keeps a running compensation for the rounding errors
  of the float additions (Neumaier's summation) and adds it at the end.
\<close>

datatype pynum = PyInt int | PyFloat pyfloat

datatype pyversion = Until_3_11 | From_3_12

fun py_add :: "pynum \<Rightarrow> pynum \<Rightarrow> pynum" where
  "py_add (PyInt a) (PyInt b) = PyInt (a + b)"
| "py_add (PyInt a) (PyFloat y) = PyFloat (fadd (float_of_int a) y)"
| "py_add (PyFloat x) (PyInt b) = PyFloat (fadd x (float_of_int b))"
| "py_add (PyFloat x) (PyFloat y) = PyFloat (fadd x y)"

text \<open>\<^verbatim>\<open>-x\<close>, \<^verbatim>\<open>x - y\<close>, \<^verbatim>\<open>fabs(x) >= fabs(y)\<close>, \<^verbatim>\<open>x != 0\<close> and \<^verbatim>\<open>isfinite(x)\<close>.\<close>

fun fneg :: "pyfloat \<Rightarrow> pyfloat" where
  "fneg (Fin s a) = Fin (\<not> s) a"
| "fneg (Inf s) = Inf (\<not> s)"
| "fneg NaN = NaN"

definition fsub :: "pyfloat \<Rightarrow> pyfloat \<Rightarrow> pyfloat" where
  "fsub x y = fadd x (fneg y)"

fun fabs_ge :: "pyfloat \<Rightarrow> pyfloat \<Rightarrow> bool" where
  "fabs_ge NaN _ = False"
| "fabs_ge _ NaN = False"
| "fabs_ge (Inf s) _ = True"
| "fabs_ge (Fin s a) (Inf t) = False"
| "fabs_ge (Fin s a) (Fin t b) = (\<bar>b\<bar> \<le> \<bar>a\<bar>)"

fun nonzero :: "pyfloat \<Rightarrow> bool" where
  "nonzero (Fin s a) = (a \<noteq> 0)"
| "nonzero _ = True"

fun isfinite :: "pyfloat \<Rightarrow> bool" where
  "isfinite (Fin s a) = True"
| "isfinite _ = False"

text \<open>
  The loop of \<^verbatim>\<open>sum\<close> from CPython 3.12 on: integers are added as integers until the
  first float comes, which is added to them by \<^verbatim>\<open>+\<close>; from then on \<open>f\<close> is the running
  float sum and \<open>c\<close> the compensation, which is added at the end when it is finite and
  not zero. An integer met after the first float is converted and added to \<open>f\<close>, with
  no compensation.
\<close>

fun sum_floats :: "pyfloat \<Rightarrow> pyfloat \<Rightarrow> pynum list \<Rightarrow> pynum" where
  "sum_floats f c [] = PyFloat (if nonzero c \<and> isfinite c then fadd f c else f)"
| "sum_floats f c (PyFloat x # xs) =
     (let t = fadd f x;
          d = (if fabs_ge f x then fadd (fsub f t) x else fadd (fsub x t) f)
      in sum_floats t (fadd c d) xs)"
| "sum_floats f c (PyInt a # xs) = sum_floats (fadd f (float_of_int a)) c xs"

fun sum_ints :: "int \<Rightarrow> pynum list \<Rightarrow> pynum" where
  "sum_ints i [] = PyInt i"
| "sum_ints i (PyInt a # xs) = sum_ints (i + a) xs"
| "sum_ints i (PyFloat x # xs) = sum_floats (fadd (float_of_int i) x) (Fin False 0) xs"

definition py_sum :: "pyversion \<Rightarrow> pynum list \<Rightarrow> pynum" where
  "py_sum v xs =
     (case v of
        Until_3_11 \<Rightarrow> foldl py_add (PyInt 0) xs
      | From_3_12 \<Rightarrow> sum_ints 0 xs)"

text \<open>\<^verbatim>\<open>x / n\<close> for an \<^verbatim>\<open>int\<close> divisor \<open>n\<close> (true division).\<close>

fun py_truediv :: "pynum \<Rightarrow> int \<Rightarrow> pyexc + pynum" where
  "py_truediv (PyFloat x) n = map_sum id PyFloat (fdiv x (float_of_int n))"
| "py_truediv (PyInt a) n =
     (if n = 0 then Inl ZeroDivisionError
      else Inr (PyFloat (fround ((a < 0) \<noteq> (n < 0)) \<bar>of_int a / of_int n\<bar>)))"

section \<open>Regular expressions of the validation rules\<close>

text \<open>
  A small matcher by derivatives for the patterns handed to \<^verbatim>\<open>re.match\<close>. Both patterns
  of the program are anchored with \<^verbatim>\<open>^\<close> and \<^verbatim>\<open>$\<close>; \<^verbatim>\<open>$\<close> also matches just before a
  line feed that ends the text, hence the second disjunct of \<open>re_match\<close>.
\<close>

datatype regex = Nul | Eps | Cls "char \<Rightarrow> bool" | Seq regex regex | Alt regex regex
  | Star regex

fun nullable :: "regex \<Rightarrow> bool" where
  "nullable Nul = False"
| "nullable Eps = True"
| "nullable (Cls P) = False"
| "nullable (Seq r s) = (nullable r \<and> nullable s)"
| "nullable (Alt r s) = (nullable r \<or> nullable s)"
| "nullable (Star r) = True"

fun deriv :: "char \<Rightarrow> regex \<Rightarrow> regex" where
  "deriv c Nul = Nul"
| "deriv c Eps = Nul"
| "deriv c (Cls P) = (if P c then Eps else Nul)"
| "deriv c (Seq r s) =
     (if nullable r then Alt (Seq (deriv c r) s) (deriv c s) else Seq (deriv c r) s)"
| "deriv c (Alt r s) = Alt (deriv c r) (deriv c s)"
| "deriv c (Star r) = Seq (deriv c r) (Star r)"

definition matches :: "regex \<Rightarrow> string \<Rightarrow> bool" where
  "matches r s = nullable (foldl (\<lambda>r c. deriv c r) r s)"

definition re_match :: "regex \<Rightarrow> string \<Rightarrow> bool" where
  "re_match r s =
     (matches r s \<or> (s \<noteq> [] \<and> last s = CHR 0x0A \<and> matches r (butlast s)))"

definition Plus :: "regex \<Rightarrow> regex" where
  "Plus r = Seq r (Star r)"

primrec Rep :: "nat \<Rightarrow> regex \<Rightarrow> regex" where
  "Rep 0 r = Eps"
| "Rep (Suc n) r = Seq r (Rep n r)"

definition Lit :: "char \<Rightarrow> regex" where
  "Lit c = Cls (\<lambda>x. x = c)"

text \<open>\<^verbatim>\<open>\w\<close> on code points below 256: letters, digits, the underscore, and the Latin-1
  letters and numeric signs.\<close>

definition is_word :: "char \<Rightarrow> bool" where
  "is_word c =
     (let n = code c
      in (48 \<le> n \<and> n \<le> 57) \<or> (65 \<le> n \<and> n \<le> 90) \<or> (97 \<le> n \<and> n \<le> 122) \<or> n = 95
         \<or> n \<in> {170, 178, 179, 181, 185, 186, 188, 189, 190}
         \<or> (192 \<le> n \<and> n \<le> 255 \<and> n \<noteq> 215 \<and> n \<noteq> 247))"

text \<open>\<^verbatim>\<open>^09\d{9}$\<close>\<close>

definition phone_re :: regex where
  "phone_re = Seq (Lit (CHR ''0'')) (Seq (Lit (CHR ''9'')) (Rep 9 (Cls is_digit)))"

text \<open>\<^verbatim>\<open>^[\w\.-]+@[\w\.-]+\.\w+$\<close>\<close>

definition email_re :: regex where
  "email_re =
     (let w = Cls (\<lambda>c. is_word c \<or> c = CHR ''.'' \<or> c = CHR ''-'')
      in Seq (Plus w) (Seq (Lit (CHR ''@'')) (Seq (Plus w)
           (Seq (Lit (CHR ''.'')) (Plus (Cls is_word))))))"

section \<open>Data of the invoice application\<close>

text \<open>
  A line item is the tuple \<^verbatim>\<open>(name, price, quantity, unit, total)\<close>; \<open>item4\<close> is
  \<^verbatim>\<open>item[4]\<close>. An order is the dictionary built in \<^verbatim>\<open>add_to_registered_orders\<close>, with
  one field per key.
\<close>

type_synonym item = "string \<times> pyfloat \<times> pyfloat \<times> string \<times> pyfloat"

definition item4 :: "item \<Rightarrow> pyfloat" where
  "item4 it = (case it of (name, price, quantity, unit, tot) \<Rightarrow> tot)"

record order =
  o_date :: string
  o_seller_name :: string
  o_seller_phone :: string
  o_seller_email :: string
  o_seller_address :: string
  o_buyer_name :: string
  o_buyer_phone :: string
  o_buyer_address :: string
  o_buyer_postal :: string
  o_buyer_country :: string
  o_items :: "item list"
  o_total :: pynum

text \<open>
  The data file \<^verbatim>\<open>orders.pkl\<close>. Its bytes are kept as what \<^verbatim>\<open>pickle.load\<close> makes of
  them: an object, or the exception raised on bytes that are no pickle. An unpickled
  object is a dictionary from keys to lists of orders, or something without a
  \<^verbatim>\<open>get\<close> method. \<open>readable\<close> says whether \<^verbatim>\<open>open\<close> succeeds in mode \<^verbatim>\<open>'rb'\<close>; where it
  does not, it raises \<^verbatim>\<open>OSError\<close>.

  \<open>on_write\<close> is what the next write to the file comes to. \<^verbatim>\<open>open\<close> in mode \<^verbatim>\<open>'wb'\<close>
  raises (\<open>OpenRefused\<close>, the file stays as it is); or it succeeds, which empties the
  file, and then \<^verbatim>\<open>pickle.dump\<close> or the flush at the end of the \<^verbatim>\<open>with\<close> block raises
  with nothing in the file (\<open>LeftEmpty\<close>: \<^verbatim>\<open>pickle.load\<close> raises \<^verbatim>\<open>EOFError\<close> on it) or
  with a part of the pickle in it (\<open>LeftPartial\<close>: \<^verbatim>\<open>pickle.load\<close> raises
  \<^verbatim>\<open>UnpicklingError\<close> on it); or the whole pickle is written (\<open>Written\<close>).
\<close>

datatype pyobj = PyDict "(string \<times> order list) list" | PyOther

datatype blob = Pickle pyobj | Damaged pyexc

datatype write_outcome = Written | OpenRefused | LeftEmpty | LeftPartial

record store =
  content :: "blob option"
  readable :: bool
  on_write :: write_outcome

record stats =
  total_reg_orders :: nat
  total_unreg_orders :: nat
  total_amount :: pynum
  avg_order :: pynum

text \<open>
  The state of \<^verbatim>\<open>InvoiceApp\<close>: the three lists, the data file, the text of the input
  fields, and the numbers shown by the total label and the statistics table. The list
  widgets, which mirror the three lists, and the theme are left out. \<open>python\<close> is the
  interpreter the program runs on.
\<close>

record app =
  python :: pyversion
  items :: "item list"
  registered_orders :: "order list"
  unregistered_orders :: "order list"
  data_file :: store
  seller_name :: string
  seller_phone :: string
  seller_email :: string
  seller_address :: string
  buyer_name :: string
  buyer_phone :: string
  buyer_address :: string
  buyer_postal :: string
  buyer_country :: string
  item_name :: string
  item_price :: string
  item_quantity :: string
  item_unit :: string
  total_label :: pynum
  stats_table :: stats

text \<open>
  What a handler ends with: it runs through, shows a warning and returns, returns because
  the user declined the confirmation or cancelled the dialog, or raises.
\<close>

datatype party = Seller | Buyer

datatype warning = EmptyName | InvalidNumber | EmptySellerName | EmptyBuyerName
  | InvalidPhone party | InvalidEmail | NoItems | NoSelection

datatype outcome = Ok | Warning warning | Declined | Raised pyexc

section \<open>Persistence\<close>

definition dict_get :: "(string \<times> order list) list \<Rightarrow> string \<Rightarrow> order list" where
  "dict_get d k = (case map_of d k of None \<Rightarrow> [] | Some v \<Rightarrow> v)"

definition load_data :: "app \<Rightarrow> outcome \<times> app" where
  "load_data s =
     (let empty = s\<lparr>registered_orders := [], unregistered_orders := []\<rparr>
      in case content (data_file s) of
           None \<Rightarrow> (Ok, empty)
         | Some b \<Rightarrow>
             if \<not> readable (data_file s) then (Raised OSError, s)
             else (case b of
                     Damaged e \<Rightarrow>
                       if e = UnpicklingError \<or> e = EOFError \<or> e = AttributeError
                       then (Ok, empty) else (Raised e, s)
                   | Pickle PyOther \<Rightarrow> (Ok, empty)
                   | Pickle (PyDict d) \<Rightarrow>
                       (Ok, s\<lparr>registered_orders := dict_get d ''registered'',
                              unregistered_orders := dict_get d ''unregistered''\<rparr>)))"

definition save_data :: "app \<Rightarrow> app" where
  "save_data s =
     (case on_write (data_file s) of
        OpenRefused \<Rightarrow> s
      | LeftEmpty \<Rightarrow> s\<lparr>data_file := (data_file s)\<lparr>content := Some (Damaged EOFError)\<rparr>\<rparr>
      | LeftPartial \<Rightarrow>
          s\<lparr>data_file := (data_file s)\<lparr>content := Some (Damaged UnpicklingError)\<rparr>\<rparr>
      | Written \<Rightarrow>
          s\<lparr>data_file := (data_file s)\<lparr>content :=
             Some (Pickle (PyDict [(''registered'', registered_orders s),
                                   (''unregistered'', unregistered_orders s)]))\<rparr>\<rparr>)"

text \<open>The constructor \<^verbatim>\<open>InvoiceApp.__init__\<close>, up to \<^verbatim>\<open>load_data\<close>.\<close>

definition startup :: "app \<Rightarrow> outcome \<times> app" where
  "startup s = load_data (s\<lparr>items := [], registered_orders := [], unregistered_orders := []\<rparr>)"

section \<open>Totals and statistics\<close>

text \<open>\<^verbatim>\<open>sum(item[4] for item in items)\<close>\<close>

definition items_total :: "pyversion \<Rightarrow> item list \<Rightarrow> pynum" where
  "items_total v xs = py_sum v (map (\<lambda>it. PyFloat (item4 it)) xs)"

definition update_total :: "app \<Rightarrow> app" where
  "update_total s = s\<lparr>total_label := items_total (python s) (items s)\<rparr>"

definition update_statistics :: "app \<Rightarrow> outcome \<times> app" where
  "update_statistics s =
     (let n = length (registered_orders s);
          m = length (unregistered_orders s);
          amount = py_sum (python s)
                     (map (\<lambda>ord. items_total (python s) (o_items ord)) (registered_orders s))
      in case (if 0 < n then py_truediv amount (int n) else Inr (PyInt 0)) of
           Inl e \<Rightarrow> (Raised e, s)
         | Inr avg \<Rightarrow>
             (Ok, s\<lparr>stats_table := \<lparr>total_reg_orders = n, total_unreg_orders = m,
                                      total_amount = amount, avg_order = avg\<rparr>\<rparr>))"

text \<open>Sequencing: a handler that raised does not go on.\<close>

definition and_then :: "outcome \<times> app \<Rightarrow> (app \<Rightarrow> outcome \<times> app) \<Rightarrow> outcome \<times> app" where
  "and_then r f = (case r of (Ok, s) \<Rightarrow> f s | (out, s) \<Rightarrow> (out, s))"

text \<open>\<^verbatim>\<open>xs.pop(row)\<close> for a row of a list widget, which is never negative.\<close>

definition pop :: "nat \<Rightarrow> 'a list \<Rightarrow> pyexc + ('a \<times> 'a list)" where
  "pop row xs =
     (if row < length xs then Inr (xs ! row, take row xs @ drop (Suc row) xs)
      else Inl IndexError)"

section \<open>The draft invoice\<close>

definition add_item :: "app \<Rightarrow> outcome \<times> app" where
  "add_item s =
     (let name = strip (item_name s)
      in if name = [] then (Warning EmptyName, s)
         else (case py_float (strip (replace_comma (item_price s))) of
                 None \<Rightarrow> (Warning InvalidNumber, s)
               | Some price \<Rightarrow>
                   (case py_float (strip (item_quantity s)) of
                      None \<Rightarrow> (Warning InvalidNumber, s)
                    | Some quantity \<Rightarrow>
                        if fle0 price \<or> fle0 quantity then (Warning InvalidNumber, s)
                        else
                          let unit = item_unit s;
                              tot = fmul price quantity;
                              s1 = s\<lparr>items := items s @ [(name, price, quantity, unit, tot)]\<rparr>
                          in (Ok, (update_total s1)\<lparr>item_name := [], item_price := [],
                                                      item_quantity := []\<rparr>))))"

definition delete_item :: "nat option \<Rightarrow> bool \<Rightarrow> app \<Rightarrow> outcome \<times> app" where
  "delete_item selected confirmed s =
     (case selected of
        None \<Rightarrow> (Warning NoSelection, s)
      | Some row \<Rightarrow>
          if \<not> confirmed then (Declined, s)
          else (case pop row (items s) of
                  Inl e \<Rightarrow> (Raised e, s)
                | Inr (it, rest) \<Rightarrow> (Ok, update_total (s\<lparr>items := rest\<rparr>))))"

definition clear_form :: "app \<Rightarrow> app" where
  "clear_form s =
     update_total (s\<lparr>items := [], seller_name := [], seller_phone := [], seller_email := [],
        seller_address := [], buyer_name := [], buyer_phone := [], buyer_address := [],
        buyer_postal := [], buyer_country := [], item_name := [], item_price := [],
        item_quantity := []\<rparr>)"

definition validate_inputs :: "app \<Rightarrow> warning option" where
  "validate_inputs s =
     (if strip (seller_name s) = [] then Some EmptySellerName
      else if strip (buyer_name s) = [] then Some EmptyBuyerName
      else if seller_phone s \<noteq> [] \<and> \<not> re_match phone_re (seller_phone s)
        then Some (InvalidPhone Seller)
      else if buyer_phone s \<noteq> [] \<and> \<not> re_match phone_re (buyer_phone s)
        then Some (InvalidPhone Buyer)
      else if seller_email s \<noteq> [] \<and> \<not> re_match email_re (seller_email s)
        then Some InvalidEmail
      else None)"

definition make_order :: "string \<Rightarrow> app \<Rightarrow> order" where
  "make_order today s =
     \<lparr>o_date = today, o_seller_name = seller_name s, o_seller_phone = seller_phone s,
      o_seller_email = seller_email s, o_seller_address = seller_address s,
      o_buyer_name = buyer_name s, o_buyer_phone = buyer_phone s,
      o_buyer_address = buyer_address s, o_buyer_postal = buyer_postal s,
      o_buyer_country = buyer_country s, o_items = items s,
      o_total = items_total (python s) (items s)\<rparr>"

text \<open>\<open>today\<close> is the text of \<^verbatim>\<open>datetime.datetime.now().strftime('%Y/%m/%d')\<close>.\<close>

definition add_to_registered_orders :: "string \<Rightarrow> app \<Rightarrow> outcome \<times> app" where
  "add_to_registered_orders today s =
     (case validate_inputs s of
        Some w \<Rightarrow> (Warning w, s)
      | None \<Rightarrow>
          if items s = [] then (Warning NoItems, s)
          else
            let s1 = s\<lparr>registered_orders := registered_orders s @ [make_order today s]\<rparr>
            in and_then (update_statistics (save_data s1)) (\<lambda>s2. (Ok, clear_form s2)))"

definition add_to_unregistered_orders :: "string \<Rightarrow> app \<Rightarrow> outcome \<times> app" where
  "add_to_unregistered_orders today s =
     (case validate_inputs s of
        Some w \<Rightarrow> (Warning w, s)
      | None \<Rightarrow>
          if items s = [] then (Warning NoItems, s)
          else
            let s1 = s\<lparr>unregistered_orders := unregistered_orders s @ [make_order today s]\<rparr>
            in and_then (update_statistics (save_data s1)) (\<lambda>s2. (Ok, clear_form s2)))"

section \<open>The order ledger\<close>

text \<open>
  The edit dialog holds the order it was opened on and the text of its five buyer
  fields.
\<close>

record edit_dialog =
  dlg_order :: order
  dlg_buyer_name :: string
  dlg_buyer_phone :: string
  dlg_buyer_address :: string
  dlg_buyer_postal :: string
  dlg_buyer_country :: string

definition get_updated_order :: "edit_dialog \<Rightarrow> order" where
  "get_updated_order d =
     \<lparr>o_date = o_date (dlg_order d),
      o_seller_name = o_seller_name (dlg_order d),
      o_seller_phone = o_seller_phone (dlg_order d),
      o_seller_email = o_seller_email (dlg_order d),
      o_seller_address = o_seller_address (dlg_order d),
      o_buyer_name = strip (dlg_buyer_name d),
      o_buyer_phone = strip (dlg_buyer_phone d),
      o_buyer_address = strip (dlg_buyer_address d),
      o_buyer_postal = strip (dlg_buyer_postal d),
      o_buyer_country = strip (dlg_buyer_country d),
      o_items = o_items (dlg_order d),
      o_total = o_total (dlg_order d)\<rparr>"

text \<open>
  \<^verbatim>\<open>edit_order(item, is_registered)\<close>: \<open>row\<close> is the row of the double-clicked entry,
  \<open>accepted\<close> the result of \<^verbatim>\<open>dialog.exec_()\<close>, and the five texts after \<open>accepted\<close> are
  what the user left in the dialog's buyer fields (\<open>name\<close>, \<open>phone\<close>, \<open>address\<close>,
  \<open>postal\<close>, \<open>country\<close>).
\<close>

definition edit_order ::
  "nat \<Rightarrow> bool \<Rightarrow> bool \<Rightarrow> string \<Rightarrow> string \<Rightarrow> string \<Rightarrow> string \<Rightarrow> string \<Rightarrow> app
     \<Rightarrow> outcome \<times> app" where
  "edit_order row is_registered accepted name phone address postal country s =
     (let order_list = (if is_registered then registered_orders s else unregistered_orders s)
      in if \<not> row < length order_list then (Raised IndexError, s)
         else
           let ord = order_list ! row;
               dialog = \<lparr>dlg_order = ord, dlg_buyer_name = name, dlg_buyer_phone = phone,
                         dlg_buyer_address = address, dlg_buyer_postal = postal,
                         dlg_buyer_country = country\<rparr>
           in if \<not> accepted then (Declined, s)
              else
                let updated_order = get_updated_order dialog
                in if strip (o_buyer_name updated_order) = [] then (Warning EmptyBuyerName, s)
                   else if o_buyer_phone updated_order \<noteq> []
                           \<and> \<not> re_match phone_re (o_buyer_phone updated_order)
                     then (Warning (InvalidPhone Buyer), s)
                   else
                     let s1 = (if is_registered
                               then s\<lparr>registered_orders := order_list[row := updated_order]\<rparr>
                               else s\<lparr>unregistered_orders := order_list[row := updated_order]\<rparr>)
                     in update_statistics (save_data s1))"

definition move_to_registered :: "nat option \<Rightarrow> bool \<Rightarrow> app \<Rightarrow> outcome \<times> app" where
  "move_to_registered selected confirmed s =
     (case selected of
        None \<Rightarrow> (Warning NoSelection, s)
      | Some row \<Rightarrow>
          if \<not> confirmed then (Declined, s)
          else (case pop row (unregistered_orders s) of
                  Inl e \<Rightarrow> (Raised e, s)
                | Inr (ord, rest) \<Rightarrow>
                    update_statistics
                      (save_data (s\<lparr>unregistered_orders := rest,
                                     registered_orders := registered_orders s @ [ord]\<rparr>))))"

text \<open>User actions on the draft: filling the item fields and pressing "add", or
  selecting a row and pressing "delete".\<close>

datatype action = AddItem string string string string | DeleteItem "nat option" bool

fun step :: "app \<Rightarrow> action \<Rightarrow> app" where
  "step s (AddItem name price quantity unit) =
     snd (add_item (s\<lparr>item_name := name, item_price := price, item_quantity := quantity,
                      item_unit := unit\<rparr>))"
| "step s (DeleteItem selected confirmed) = snd (delete_item selected confirmed s)"

definition run :: "action list \<Rightarrow> app \<Rightarrow> app" where
  "run acts s = foldl step s acts"

section \<open>Whole amounts\<close>




section \<open>A sample state\<close>

text \<open>
  A form filled in for one item, with one order waiting in the unregistered list, and
  variants of it: a data file that cannot be written, a data file that is no pickle, a
  data file that cannot be read, a write that breaks off, price fields holding
  \<^verbatim>\<open>0.1\<close> and \<^verbatim>\<open>nan\<close>, three registered orders, and the entry of two items.
\<close>

definition widget :: item where
  "widget = (''Widget'', Fin False 100000, Fin False 2, ''kg'', Fin False 200000)"

definition demo_order :: order where
  "demo_order =
     \<lparr>o_date = ''2024/05/01'', o_seller_name = ''Ali'', o_seller_phone = ''09123456789'',
      o_seller_email = ''ali@shop.ir'', o_seller_address = ''Tehran'',
      o_buyer_name = ''Sara'', o_buyer_phone = [], o_buyer_address = ''Shiraz'',
      o_buyer_postal = ''71345'', o_buyer_country = ''Iran'',
      o_items = [widget], o_total = PyFloat (Fin False 200000)\<rparr>"

definition demo_app :: app where
  "demo_app =
     \<lparr>python = From_3_12,
      items = [], registered_orders = [], unregistered_orders = [demo_order],
      data_file = \<lparr>content = None, readable = True, on_write = Written\<rparr>,
      seller_name = ''Ali'', seller_phone = ''09123456789'', seller_email = ''ali@shop.ir'',
      seller_address = ''Tehran'', buyer_name = ''Sara'', buyer_phone = [],
      buyer_address = ''Shiraz'', buyer_postal = ''71345'', buyer_country = ''Iran'',
      item_name = '' Widget '', item_price = ''100,000'', item_quantity = ''2'',
      item_unit = ''kg'', total_label = PyInt 0,
      stats_table = \<lparr>total_reg_orders = 0, total_unreg_orders = 0,
                      total_amount = PyInt 0, avg_order = PyInt 0\<rparr>\<rparr>"

definition readonly_app :: app where
  "readonly_app =
     demo_app\<lparr>registered_orders := [demo_order],
              data_file := \<lparr>content = None, readable = True, on_write = OpenRefused\<rparr>\<rparr>"

definition damaged_app :: app where
  "damaged_app =
     demo_app\<lparr>data_file := \<lparr>content = Some (Damaged ValueError), readable = True,
                              on_write = Written\<rparr>\<rparr>"

definition locked_app :: app where
  "locked_app =
     demo_app\<lparr>data_file := \<lparr>content = Some (Pickle (PyDict [])), readable = False,
                              on_write = Written\<rparr>\<rparr>"

definition torn_app :: app where
  "torn_app =
     demo_app\<lparr>registered_orders := [demo_order],
              data_file := \<lparr>content = None, readable = True, on_write = LeftPartial\<rparr>\<rparr>"


definition nan_app :: app where
  "nan_app = demo_app\<lparr>item_name := ''x'', item_price := ''nan'', item_quantity := ''1''\<rparr>"




section \<open>Facts about rounding\<close>

lemma bits_lower: "0 < n \<Longrightarrow> 2 ^ (bits n - 1) \<le> n"
proof (induction n rule: bits.induct)
  case (1 n)
  show ?case
  proof (cases "n div 2 \<le> 0")
    case True
    with 1(2) have "n = 1" by presburger
    then show ?thesis by (simp add: bits.simps)
  next
    case False
    then have pos: "0 < n div 2" by simp
    with 1 have ih: "2 ^ (bits (n div 2) - 1) \<le> n div 2" by simp
    have b: "bits n = Suc (bits (n div 2))" using 1(2) by (subst bits.simps) simp
    have "0 < bits (n div 2)" using pos by (subst bits.simps) simp
    then have "(2::int) ^ (bits n - 1) = 2 * 2 ^ (bits (n div 2) - 1)"
      using b by (cases "bits (n div 2)") simp_all
    also have "\<dots> \<le> 2 * (n div 2)" using ih by simp
    also have "\<dots> \<le> n" by presburger
    finally show ?thesis .
  qed
qed

lemma bits_upper: "n < 2 ^ bits n"
proof (induction n rule: bits.induct)
  case (1 n)
  show ?case
  proof (cases "n \<le> 0")
    case True
    then show ?thesis by (subst bits.simps) simp
  next
    case False
    with 1 have ih: "n div 2 < 2 ^ bits (n div 2)" by simp
    have b: "bits n = Suc (bits (n div 2))" using False by (subst bits.simps) simp
    have "n < 2 * (n div 2 + 1)" by presburger
    also have "\<dots> \<le> 2 * 2 ^ bits (n div 2)" using ih by simp
    finally show ?thesis using b by simp
  qed
qed

lemma pow2_pos: "0 < pow2 e"
  by (simp add: pow2_def)

lemma pow2_powi: "pow2 e = 2 powi e"
  by (simp add: pow2_def power_int_def inverse_eq_divide power_one_over)

lemma pow2_mono: "i \<le> j \<Longrightarrow> pow2 i \<le> pow2 j"
  by (simp add: pow2_powi power_int_increasing)

lemma floor_log2_le:
  assumes "0 < a"
  shows "pow2 (floor_log2 a) \<le> a"
proof -
  obtain n d where q: "quotient_of a = (n, d)" by (cases "quotient_of a")
  have d: "0 < d" using q by (rule quotient_of_denom_pos)
  have a: "a = of_int n / of_int d" using q by (rule quotient_of_div)
  have n: "0 < n" using assms d a by (simp add: zero_less_divide_iff)
  define k where "k = int (bits n) - int (bits d)"
  have fl: "floor_log2 a = (if pow2 k \<le> a then k else k - 1)"
    by (simp add: floor_log2_def q k_def Let_def)
  have "pow2 (k - 1) \<le> a"
  proof -
    have bn: "0 < bits n" using n by (subst bits.simps) simp
    have "(of_int (2 ^ (bits n - 1)) :: rat) \<le> of_int n"
      using bits_lower [OF n] by (simp only: of_int_le_iff)
    then have lo: "(2::rat) powi (int (bits n) - 1) \<le> of_int n"
      using bn by (simp add: power_int_def nat_diff_distrib')
    have "(of_int d :: rat) < of_int (2 ^ bits d)"
      using bits_upper [of d] by (simp only: of_int_less_iff)
    then have hi: "of_int d \<le> (2::rat) powi int (bits d)"
      by (simp add: power_int_def)
    have "k - 1 = (int (bits n) - 1) - int (bits d)"
      by (simp add: k_def)
    then have "pow2 (k - 1) = 2 powi (int (bits n) - 1) / 2 powi int (bits d)"
      by (simp only: pow2_powi) (rule power_int_diff, simp)
    also have "\<dots> \<le> of_int n / of_int d"
      using lo hi d n by (intro frac_le) simp_all
    finally show ?thesis using a by simp
  qed
  then show ?thesis by (simp add: fl)
qed

lemma round_half_even_ge: "\<lfloor>q\<rfloor> \<le> round_half_even q"
  by (simp add: round_half_even_def Let_def)

lemma round_mag_pos:
  assumes "1 \<le> a"
  shows "0 < round_mag a"
proof -
  define e where "e = max (floor_log2 a - 52) (- 1074)"
  have "pow2 e \<le> a"
  proof (cases "floor_log2 a - 52 \<le> - 1074")
    case True
    then have "e = - 1074" by (simp add: e_def)
    then have "pow2 e \<le> 1" by (simp add: pow2_def)
    with assms show ?thesis by simp
  next
    case False
    then have "e \<le> floor_log2 a" by (simp add: e_def)
    then have "pow2 e \<le> pow2 (floor_log2 a)" by (rule pow2_mono)
    also have "\<dots> \<le> a" using assms by (intro floor_log2_le) simp
    finally show ?thesis .
  qed
  then have "1 \<le> a / pow2 e" using pow2_pos [of e] by (simp add: le_divide_eq)
  then have "1 \<le> \<lfloor>a / pow2 e\<rfloor>" by simp
  then have "1 \<le> round_half_even (a / pow2 e)"
    using round_half_even_ge [of "a / pow2 e"] by linarith
  then have "0 < (of_int (round_half_even (a / pow2 e)) :: rat)" by simp
  then show ?thesis using pow2_pos [of e] by (simp add: round_mag_def e_def Let_def)
qed

lemma float_of_int_nonzero: "0 < n \<Longrightarrow> float_of_int n \<noteq> Fin t 0"
  using round_mag_pos [of "of_int n"]
  by (auto simp: float_of_int_def fround_def Let_def)

lemma py_truediv_ok: "0 < n \<Longrightarrow> \<exists>v. py_truediv x n = Inr v"
proof (cases x)
  case (PyInt a)
  assume "0 < n"
  then show ?thesis using PyInt by simp
next
  case (PyFloat y)
  assume n: "0 < n"
  show ?thesis
  proof (cases "float_of_int n")
    case (Fin t b)
    with float_of_int_nonzero [OF n, of t] have "b \<noteq> 0" by auto
    then show ?thesis using PyFloat Fin by (cases y) simp_all
  next
    case (Inf t)
    then show ?thesis using PyFloat by (cases y) simp_all
  next
    case NaN
    then show ?thesis using PyFloat by simp
  qed
qed

section \<open>Sums and products of whole amounts\<close>

lemma pow2_strict: "i < j \<Longrightarrow> pow2 i < pow2 j"
  by (simp add: pow2_powi power_int_strict_increasing)


















section \<open>Facts about the statistics and the store\<close>

lemma update_statistics_Ok: "fst (update_statistics s) = Ok"
proof (cases "0 < length (registered_orders s)")
  case True
  define amount where "amount = py_sum (python s)
     (map (\<lambda>ord. items_total (python s) (o_items ord)) (registered_orders s))"
  obtain v where "py_truediv amount (int (length (registered_orders s))) = Inr v"
    using True py_truediv_ok [of "int (length (registered_orders s))" amount] by fastforce
  with True show ?thesis by (simp add: update_statistics_def Let_def amount_def)
next
  case False
  then show ?thesis by (simp add: update_statistics_def Let_def)
qed

lemma update_statistics_snd:
  "snd (update_statistics s) = s\<lparr>stats_table := stats_table (snd (update_statistics s))\<rparr>"
  by (auto simp: update_statistics_def Let_def split: sum.splits)

lemma update_statistics_registered [simp]:
  "registered_orders (snd (update_statistics s)) = registered_orders s"
  by (subst update_statistics_snd) simp

lemma update_statistics_unregistered [simp]:
  "unregistered_orders (snd (update_statistics s)) = unregistered_orders s"
  by (subst update_statistics_snd) simp

lemma save_data_lists [simp]:
  "registered_orders (save_data s) = registered_orders s"
  "unregistered_orders (save_data s) = unregistered_orders s"
  by (simp_all add: save_data_def split: write_outcome.splits)

section \<open>Facts about text and parsing\<close>

lemma mem_dropWhile: "x \<in> set xs \<Longrightarrow> \<not> P x \<Longrightarrow> x \<in> set (dropWhile P xs)"
  by (induction xs) auto

lemma mem_trim:
  "x \<in> set xs \<Longrightarrow> \<not> P x \<Longrightarrow> x \<in> set (rev (dropWhile P (rev (dropWhile P xs))))"
  using mem_dropWhile [of x "rev (dropWhile P xs)" P] mem_dropWhile [of x xs P] by simp

lemma comma_class:
  "\<not> py_isspace (CHR '','')" "\<not> float_space (CHR '','')" "\<not> is_digit (CHR '','')"
  by (simp_all add: py_isspace_def float_space_def is_digit_def code_def)

lemma list_all2_mem: "list_all2 R xs ys \<Longrightarrow> x \<in> set xs \<Longrightarrow> \<exists>y\<in>set ys. R x y"
  by (induction rule: list_all2_induct) auto

lemma ci_eq_comma_aux:
  assumes "CHR '','' \<in> set s" and "ci_eq s l"
  shows "\<exists>y\<in>set l. y = CHR '','' \<or> code y = 76"
proof -
  have "list_all2 (\<lambda>c d. c = d \<or> code c + 32 = code d) s l"
    using assms(2) by (simp add: ci_eq_def)
  from list_all2_mem [OF this assms(1)] show ?thesis by (auto simp: code_def)
qed

lemma ci_eq_comma:
  assumes "CHR '','' \<in> set s"
  shows "\<not> ci_eq s ''inf''" "\<not> ci_eq s ''infinity''" "\<not> ci_eq s ''nan''"
  using ci_eq_comma_aux [OF assms, of "''inf''"] ci_eq_comma_aux [OF assms, of "''infinity''"]
    ci_eq_comma_aux [OF assms, of "''nan''"]
  by (auto simp: code_def)

lemma parse_exponent_comma: "CHR '','' \<in> set s \<Longrightarrow> parse_exponent s = None"
  using comma_class(3)
  by (auto simp: parse_exponent_def split_sign_def list_all_iff split: list.splits if_splits)

lemma parse_decimal_comma:
  assumes "CHR '','' \<in> set s"
  shows "parse_decimal s = None"
proof -
  have r1: "CHR '','' \<in> set (dropWhile is_digit s)"
    using assms comma_class(3) by (rule mem_dropWhile)
  show ?thesis
  proof (cases "dropWhile is_digit s")
    case Nil
    with r1 show ?thesis by simp
  next
    case (Cons c r)
    show ?thesis
    proof (cases "c = CHR ''.''")
      case True
      with r1 Cons have "CHR '','' \<in> set r" by simp
      then have "CHR '','' \<in> set (dropWhile is_digit r)"
        using comma_class(3) by (rule mem_dropWhile)
      then have "parse_exponent (dropWhile is_digit r) = None" by (rule parse_exponent_comma)
      then show ?thesis using Cons True by (simp add: parse_decimal_def Let_def)
    next
      case False
      have "parse_exponent (dropWhile is_digit s) = None"
        using r1 by (rule parse_exponent_comma)
      then show ?thesis using Cons False by (simp add: parse_decimal_def Let_def)
    qed
  qed
qed

lemma split_sign_comma:
  "CHR '','' \<in> set s \<Longrightarrow> CHR '','' \<in> set (snd (split_sign s))"
  by (auto simp: split_sign_def split: list.splits)

lemma py_float_comma:
  assumes "CHR '','' \<in> set s"
  shows "py_float s = None"
proof -
  define u where
    "u = rev (dropWhile float_space (rev (dropWhile float_space (filter (\<lambda>c. c \<noteq> CHR ''_'') s))))"
  have "CHR '','' \<in> set (filter (\<lambda>c. c \<noteq> CHR ''_'') s)" using assms by simp
  then have "CHR '','' \<in> set u"
    unfolding u_def using comma_class(2) by (rule mem_trim)
  then have b: "CHR '','' \<in> set (snd (split_sign u))" by (rule split_sign_comma)
  show ?thesis
    using ci_eq_comma [OF b] parse_decimal_comma [OF b]
    by (simp add: py_float_def Let_def u_def [symmetric] split_beta)
qed

lemma dropWhile_id: "xs = [] \<or> \<not> P (hd xs) \<Longrightarrow> dropWhile P xs = xs"
  by (cases xs) auto

lemma strip_idem: "strip (strip s) = strip s"
proof -
  define u where "u = dropWhile py_isspace s"
  define v where "v = dropWhile py_isspace (rev u)"
  have hu: "u = [] \<or> \<not> py_isspace (hd u)" unfolding u_def using hd_dropWhile by blast
  have hv: "v = [] \<or> \<not> py_isspace (hd v)" unfolding v_def using hd_dropWhile by blast
  have s: "strip s = rev v" by (simp add: strip_def u_def v_def)
  have "rev v = [] \<or> \<not> py_isspace (hd (rev v))"
  proof (cases "v = []")
    case True
    then show ?thesis by simp
  next
    case False
    obtain w where w: "rev u = w @ v" unfolding v_def
      by (metis takeWhile_dropWhile_id)
    then have "u = rev v @ rev w" by (metis rev_append rev_rev_ident)
    then have "hd u = hd (rev v)" using False by simp
    moreover have "u \<noteq> []" using w False by auto
    ultimately show ?thesis using hu by simp
  qed
  then have a: "dropWhile py_isspace (rev v) = rev v" by (rule dropWhile_id)
  have b: "dropWhile py_isspace v = v" using hv by (rule dropWhile_id)
  show ?thesis by (simp add: s) (simp add: strip_def a b)
qed

lemma strip_id:
  assumes "s = [] \<or> (\<not> py_isspace (hd s) \<and> \<not> py_isspace (last s))"
  shows "strip s = s"
proof (cases "s = []")
  case True
  then show ?thesis by (simp add: strip_def)
next
  case False
  with assms have a: "dropWhile py_isspace s = s" by (intro dropWhile_id) simp
  have "dropWhile py_isspace (rev s) = rev s"
    using assms False by (intro dropWhile_id) (simp add: hd_rev)
  with a show ?thesis by (simp add: strip_def)
qed

lemma space_facts:
  "\<not> py_isspace (CHR ''S'')" "\<not> py_isspace (CHR ''a'')" "\<not> py_isspace (CHR ''0'')"
  "\<not> py_isspace (CHR ''9'')" "\<not> py_isspace (CHR ''5'')" "\<not> py_isspace (CHR ''1'')"
  "\<not> py_isspace (CHR ''z'')" "\<not> py_isspace (CHR ''I'')" "\<not> py_isspace (CHR ''n'')"
  "\<not> py_isspace (CHR ''7'')"
  by (simp_all add: py_isspace_def code_def)



lemma add_item_python: "python (snd (add_item s)) = python s"
  by (auto simp: add_item_def Let_def update_total_def split: option.splits)

lemma delete_item_python: "python (snd (delete_item sel c s)) = python s"
  by (auto simp: delete_item_def update_total_def split: option.splits sum.splits)

lemma step_python: "python (step s a) = python s"
  by (cases a) (simp_all add: add_item_python delete_item_python)

lemma run_python: "python (run acts s) = python s"
  unfolding run_def by (induction acts arbitrary: s) (simp_all add: step_python)





text \<open>What \<^verbatim>\<open>load_data\<close> and \<^verbatim>\<open>add_item\<close> do, case by case.\<close>

lemma load_data_absent:
  "content (data_file s) = None \<Longrightarrow>
   load_data s = (Ok, s\<lparr>registered_orders := [], unregistered_orders := []\<rparr>)"
  by (simp add: load_data_def)

lemma load_data_caught:
  assumes "content (data_file s) = Some (Damaged e)" and "readable (data_file s)"
    and "e = UnpicklingError \<or> e = EOFError \<or> e = AttributeError"
  shows "load_data s = (Ok, s\<lparr>registered_orders := [], unregistered_orders := []\<rparr>)"
  using assms by (auto simp: load_data_def)

lemma load_data_uncaught:
  assumes "content (data_file s) = Some (Damaged e)" and "readable (data_file s)"
    and "e \<noteq> UnpicklingError" and "e \<noteq> EOFError" and "e \<noteq> AttributeError"
  shows "load_data s = (Raised e, s)"
  using assms by (simp add: load_data_def)

lemma load_data_unreadable:
  "content (data_file s) = Some b \<Longrightarrow> \<not> readable (data_file s) \<Longrightarrow>
   load_data s = (Raised OSError, s)"
  by (simp add: load_data_def)

lemma add_item_EmptyName_iff:
  "fst (add_item s) = Warning EmptyName \<longleftrightarrow> strip (item_name s) = []"
  by (auto simp: add_item_def Let_def split: option.splits)

lemma add_item_InvalidNumber_iff:
  "fst (add_item s) = Warning InvalidNumber \<longleftrightarrow>
     strip (item_name s) \<noteq> []
     \<and> (case (py_float (strip (replace_comma (item_price s))),
               py_float (strip (item_quantity s))) of
          (Some price, Some quantity) \<Rightarrow> fle0 price \<or> fle0 quantity
        | _ \<Rightarrow> True)"
  by (auto simp: add_item_def Let_def split: option.splits)

lemma add_item_failure_unchanged:
  "fst (add_item s) \<noteq> Ok \<Longrightarrow> snd (add_item s) = s"
  by (auto simp: add_item_def Let_def split: option.splits if_splits)

section \<open>Evaluations on the sample state\<close>

lemma strip_Widget: "strip '' Widget '' = ''Widget''"
  by code_simp
lemma strip_x: "strip ''x'' = ''x''"
  by code_simp
lemma strip_Ali: "strip ''Ali'' = ''Ali''"
  by code_simp
lemma strip_Sara: "strip ''Sara'' = ''Sara''"
  by code_simp
lemma parse_1: "py_float (strip ''1'') = Some (Fin False 1)"
  by code_simp
lemma parse_nan: "py_float (strip (replace_comma ''nan'')) = Some NaN"
  by code_simp
lemma phone_ok: "re_match phone_re ''09123456789''"
  by code_simp
lemma phone_bad: "\<not> re_match phone_re ''12345''"
  by code_simp
lemma email_ok: "re_match email_re ''ali@shop.ir''"
  by code_simp

lemma parse_1000: "py_float (strip (replace_comma ''1,000'')) = Some (Fin False 1000)"
  by code_simp
lemma parse_1000q: "py_float (strip ''1000'') = Some (Fin False 1000)"
  by code_simp

lemma demo_valid: "validate_inputs demo_app = None"
  by (simp add: validate_inputs_def demo_app_def strip_Ali strip_Sara phone_ok email_ok)











section \<open>Persistence: C1 and C8\<close>

text \<open>
  C1, as stated: for every ledger, \<^verbatim>\<open>save_data\<close> followed by \<^verbatim>\<open>load_data\<close> yields the
  same two lists. This fails where the write does not complete, since \<^verbatim>\<open>save_data\<close>
  swallows every exception. With one registered order and no data file yet: when the
  file cannot be opened for writing, nothing is written and \<^verbatim>\<open>load_data\<close> finds no file;
  when the file is opened and the dump breaks off, \<^verbatim>\<open>load_data\<close> catches the error of
  the partial pickle. Both times it returns two empty lists.
\<close>

theorem C1_save_load_counterexample:
  "registered_orders (snd (load_data (save_data readonly_app)))
     \<noteq> registered_orders readonly_app
   \<and> registered_orders (snd (load_data (save_data torn_app)))
     \<noteq> registered_orders torn_app"
  by (simp add: readonly_app_def torn_app_def demo_app_def save_data_def load_data_def)

text \<open>
  C1, amended: when the write completes (the file opens for writing, and \<^verbatim>\<open>pickle.dump\<close>
  and the closing flush raise nothing) and the file can then be opened for reading,
  \<^verbatim>\<open>save_data\<close> followed by \<^verbatim>\<open>load_data\<close> raises nothing and yields the registered and the
  unregistered list as they were, order for order and field for field. When the file
  was opened and the write broke off, \<^verbatim>\<open>load_data\<close> yields two empty lists; when the
  file could not be opened for writing, \<^verbatim>\<open>load_data\<close> does what it does without the
  save.
\<close>

theorem C1_save_load_roundtrip:
  "(on_write (data_file s) = Written \<and> readable (data_file s) \<longrightarrow>
      fst (load_data (save_data s)) = Ok
      \<and> registered_orders (snd (load_data (save_data s))) = registered_orders s
      \<and> unregistered_orders (snd (load_data (save_data s))) = unregistered_orders s)
   \<and> ((on_write (data_file s) = LeftEmpty \<or> on_write (data_file s) = LeftPartial)
        \<and> readable (data_file s) \<longrightarrow>
      fst (load_data (save_data s)) = Ok
      \<and> registered_orders (snd (load_data (save_data s))) = []
      \<and> unregistered_orders (snd (load_data (save_data s))) = [])
   \<and> (on_write (data_file s) = OpenRefused \<longrightarrow>
      load_data (save_data s) = load_data s)"
  by (auto simp: save_data_def load_data_def dict_get_def)

theorem C1_save_load_roundtrip_witness:
  "fst (load_data (save_data demo_app)) = Ok
   \<and> registered_orders (snd (load_data (save_data demo_app))) = []
   \<and> unregistered_orders (snd (load_data (save_data demo_app))) = [demo_order]
   \<and> fst (load_data (save_data torn_app)) = Ok
   \<and> registered_orders (snd (load_data (save_data torn_app))) = []
   \<and> unregistered_orders (snd (load_data (save_data torn_app))) = []
   \<and> load_data (save_data readonly_app) = load_data readonly_app"
  using C1_save_load_roundtrip [of demo_app] C1_save_load_roundtrip [of torn_app]
    C1_save_load_roundtrip [of readonly_app]
  by (simp add: demo_app_def torn_app_def readonly_app_def)

text \<open>
  C8. The claim is that loading at startup never fails and falls back to two empty lists
  on an unreadable or corrupt store. \<^verbatim>\<open>load_data\<close> catches \<^verbatim>\<open>UnpicklingError\<close>,
  \<^verbatim>\<open>EOFError\<close> and \<^verbatim>\<open>AttributeError\<close> only: on bytes that make \<^verbatim>\<open>pickle.load\<close> raise
  \<^verbatim>\<open>ValueError\<close>, and on a file that exists but cannot be opened for reading, the
  exception leaves \<^verbatim>\<open>load_data\<close> and the constructor.
\<close>

theorem C8_load_data_raises:
  "startup damaged_app = (Raised ValueError,
     damaged_app\<lparr>items := [], registered_orders := [], unregistered_orders := []\<rparr>)
   \<and> fst (startup locked_app) = Raised OSError"
  by (simp add: startup_def load_data_def damaged_app_def locked_app_def demo_app_def)

section \<open>The ledger: C2 and C3\<close>

text \<open>
  C2. Moving row \<open>i\<close> of the unregistered list, once confirmed, either removes the order
  at position \<open>i\<close> from the unregistered list and appends it at the end of the registered
  list, every other order keeping its place, or, when \<open>i\<close> is not an index of the
  unregistered list, raises \<^verbatim>\<open>IndexError\<close> out of \<^verbatim>\<open>pop\<close> with the whole state as it was.
\<close>

theorem C2_move_to_registered_atomic:
  "(i < length (unregistered_orders s) \<longrightarrow>
      fst (move_to_registered (Some i) True s) = Ok
      \<and> unregistered_orders (snd (move_to_registered (Some i) True s))
          = take i (unregistered_orders s) @ drop (Suc i) (unregistered_orders s)
      \<and> registered_orders (snd (move_to_registered (Some i) True s))
          = registered_orders s @ [unregistered_orders s ! i])
   \<and> (\<not> i < length (unregistered_orders s) \<longrightarrow>
      move_to_registered (Some i) True s = (Raised IndexError, s))"
  by (simp add: move_to_registered_def pop_def update_statistics_Ok)

theorem C2_move_to_registered_atomic_witness:
  "fst (move_to_registered (Some 0) True demo_app) = Ok
   \<and> unregistered_orders (snd (move_to_registered (Some 0) True demo_app)) = []
   \<and> registered_orders (snd (move_to_registered (Some 0) True demo_app)) = [demo_order]
   \<and> move_to_registered (Some 5) True demo_app = (Raised IndexError, demo_app)"
  using C2_move_to_registered_atomic [of 0 demo_app]
    C2_move_to_registered_atomic [of 5 demo_app]
  by (simp add: demo_app_def)

text \<open>
  C3. Editing the order at a valid row of either list, with the dialog accepted and
  \<open>u\<close> the order that \<^verbatim>\<open>get_updated_order\<close> returns (the buyer fields are the trimmed
  texts of the dialog), where the buyer name of \<open>u\<close> is not empty: if the buyer phone of
  \<open>u\<close> is empty or matches \<^verbatim>\<open>^09\d{9}$\<close>, the order at that row is replaced by \<open>u\<close>,
  which has the date, seller fields, items and total of the old order, and the other
  list is untouched; if the phone is not empty and does not match, the handler warns
  about the buyer phone and the whole state, so the order at that row, is unchanged.
\<close>

theorem C3_edit_order:
  fixes s :: app
  defines "orders \<equiv> (\<lambda>reg t. if reg then registered_orders t else unregistered_orders t)"
  assumes "row < length (orders reg s)"
    and "u = get_updated_order \<lparr>dlg_order = orders reg s ! row, dlg_buyer_name = name,
          dlg_buyer_phone = phone, dlg_buyer_address = address, dlg_buyer_postal = postal,
          dlg_buyer_country = country\<rparr>"
    and "o_buyer_name u \<noteq> []"
  shows "(o_buyer_phone u = [] \<or> re_match phone_re (o_buyer_phone u) \<longrightarrow>
            fst (edit_order row reg True name phone address postal country s) = Ok
          \<and> orders reg (snd (edit_order row reg True name phone address postal country s))
              = (orders reg s)[row := u]
          \<and> orders (\<not> reg) (snd (edit_order row reg True name phone address postal country s))
              = orders (\<not> reg) s
          \<and> o_date u = o_date (orders reg s ! row)
          \<and> o_seller_name u = o_seller_name (orders reg s ! row)
          \<and> o_seller_phone u = o_seller_phone (orders reg s ! row)
          \<and> o_seller_email u = o_seller_email (orders reg s ! row)
          \<and> o_seller_address u = o_seller_address (orders reg s ! row)
          \<and> o_items u = o_items (orders reg s ! row)
          \<and> o_total u = o_total (orders reg s ! row)
          \<and> o_buyer_name u = strip name \<and> o_buyer_phone u = strip phone
          \<and> o_buyer_address u = strip address \<and> o_buyer_postal u = strip postal
          \<and> o_buyer_country u = strip country)
     \<and> (o_buyer_phone u \<noteq> [] \<and> \<not> re_match phone_re (o_buyer_phone u) \<longrightarrow>
            edit_order row reg True name phone address postal country s
              = (Warning (InvalidPhone Buyer), s))"
proof -
  have n: "strip (o_buyer_name u) \<noteq> []"
    using assms(3,4) by (simp add: get_updated_order_def strip_idem)
  show ?thesis
    using assms(2) n unfolding assms(3) orders_def
    by (cases reg)
      (simp_all add: edit_order_def Let_def get_updated_order_def update_statistics_Ok)
qed

theorem C3_edit_order_witness:
  "fst (edit_order 0 False True ''Sara'' ''09123456789'' ''Shiraz'' ''71345'' ''Iran'' demo_app) = Ok
   \<and> unregistered_orders
        (snd (edit_order 0 False True ''Sara'' ''09123456789'' ''Shiraz'' ''71345'' ''Iran'' demo_app))
       = [demo_order\<lparr>o_buyer_phone := ''09123456789''\<rparr>]
   \<and> edit_order 0 False True ''Sara'' ''12345'' ''Shiraz'' ''71345'' ''Iran'' demo_app
       = (Warning (InvalidPhone Buyer), demo_app)"
proof -
  have st: "strip ''Sara'' = ''Sara''" "strip ''09123456789'' = ''09123456789''"
    "strip ''12345'' = ''12345''" "strip ''Shiraz'' = ''Shiraz''" "strip ''71345'' = ''71345''"
    "strip ''Iran'' = ''Iran''"
    by (simp_all add: strip_id space_facts)
  have row: "0 < length (if False then registered_orders demo_app else unregistered_orders demo_app)"
    by (simp add: demo_app_def)
  define u where "u = (\<lambda>phone. get_updated_order
     \<lparr>dlg_order = (if False then registered_orders demo_app else unregistered_orders demo_app) ! 0,
      dlg_buyer_name = ''Sara'', dlg_buyer_phone = phone, dlg_buyer_address = ''Shiraz'',
      dlg_buyer_postal = ''71345'', dlg_buyer_country = ''Iran''\<rparr>)"
  have u1: "u ''09123456789'' = demo_order\<lparr>o_buyer_phone := ''09123456789''\<rparr>"
    by (simp add: u_def get_updated_order_def demo_app_def demo_order_def st)
  have u2: "o_buyer_phone (u ''12345'') = ''12345''" "o_buyer_name (u ''12345'') \<noteq> []"
    by (simp_all add: u_def get_updated_order_def st)
  have n1: "o_buyer_name (u ''09123456789'') \<noteq> []" by (simp add: u1 demo_order_def)
  from C3_edit_order [OF row u_def [THEN fun_cong] n1]
    C3_edit_order [OF row u_def [THEN fun_cong] u2(2)]
  show ?thesis
    by (simp add: u1 u2 phone_ok phone_bad demo_order_def) (simp add: demo_app_def demo_order_def)
qed

section \<open>Line items: C4, C5 and C10\<close>




text \<open>
  C5. The claim is that \<^verbatim>\<open>add_item\<close> warns about an invalid number whenever the price or
  the quantity text is no decimal number or is not positive. The text \<^verbatim>\<open>nan\<close> is accepted
  by \<^verbatim>\<open>float\<close>, and \<^verbatim>\<open>nan <= 0\<close> is false, so the test of the source lets it through:
  the item is added with a price and a total that are not numbers.
\<close>

theorem C5_nan_price_accepted:
  "fst (add_item nan_app) = Ok
   \<and> items (snd (add_item nan_app)) = [(''x'', NaN, Fin False 1, ''kg'', NaN)]"
  by (simp add: add_item_def nan_app_def demo_app_def Let_def update_total_def
      strip_x parse_nan parse_1 fval_def)

text \<open>
  C10. Commas are removed from the price text only. For every name that does not trim
  to empty and every price text, a quantity text that contains a comma makes
  \<^verbatim>\<open>add_item\<close> warn about an invalid number and leave the state unchanged, whether the
  price text is valid or not. The same digits without the comma are accepted.
\<close>

theorem C10_quantity_comma_rejected:
  assumes "strip (item_name s) \<noteq> []" and "CHR '','' \<in> set (item_quantity s)"
  shows "add_item s = (Warning InvalidNumber, s)"
proof -
  have "CHR '','' \<in> set (strip (item_quantity s))"
    unfolding strip_def using assms(2) comma_class(1) by (rule mem_trim)
  then have "py_float (strip (item_quantity s)) = None" by (rule py_float_comma)
  then show ?thesis using assms(1)
    by (simp add: add_item_def Let_def split: option.splits)
qed

theorem C10_quantity_comma_rejected_witness:
  "add_item (demo_app\<lparr>item_price := ''1,000'', item_quantity := ''1,000''\<rparr>)
     = (Warning InvalidNumber, demo_app\<lparr>item_price := ''1,000'', item_quantity := ''1,000''\<rparr>)
   \<and> fst (add_item (demo_app\<lparr>item_price := ''1,000'', item_quantity := ''1000''\<rparr>)) = Ok"
proof -
  have n: "strip (item_name (demo_app\<lparr>item_price := ''1,000'', item_quantity := ''1,000''\<rparr>)) \<noteq> []"
    by (simp add: demo_app_def strip_Widget)
  have c: "CHR '','' \<in> set (item_quantity (demo_app\<lparr>item_price := ''1,000'', item_quantity := ''1,000''\<rparr>))"
    by simp
  have ok: "fst (add_item (demo_app\<lparr>item_price := ''1,000'', item_quantity := ''1000''\<rparr>)) = Ok"
    by (simp add: add_item_def Let_def demo_app_def strip_Widget parse_1000 parse_1000q fval_def)
  show ?thesis using C10_quantity_comma_rejected [OF n c] ok by simp
qed

section \<open>The draft invoice: C6 and C7\<close>



text \<open>
  C7. When the identity fields pass \<^verbatim>\<open>validate_inputs\<close> and the item list is empty,
  registering the invoice, as a registered or as an unregistered order, warns that there
  are no items and leaves the whole state, so both order lists, unchanged.
\<close>

theorem C7_finalize_no_items:
  assumes "validate_inputs s = None" and "items s = []"
  shows "add_to_registered_orders today s = (Warning NoItems, s)
     \<and> add_to_unregistered_orders today s = (Warning NoItems, s)"
  using assms by (simp add: add_to_registered_orders_def add_to_unregistered_orders_def)

theorem C7_finalize_no_items_witness:
  "validate_inputs demo_app = None \<and> items demo_app = []
   \<and> add_to_registered_orders ''2024/05/01'' demo_app = (Warning NoItems, demo_app)
   \<and> add_to_unregistered_orders ''2024/05/01'' demo_app = (Warning NoItems, demo_app)"
proof -
  have e: "items demo_app = []" by (simp add: demo_app_def)
  show ?thesis using demo_valid e C7_finalize_no_items [OF demo_valid e] by simp
qed

section \<open>Statistics: C9\<close>



end
